theory Spec2Isabelle
  imports Complex_Main "HOL-Library.AList"
begin

section \<open>Strings, tables and exceptions\<close>

text \<open>
  A Python \<open>str\<close> is a sequence of Unicode code points; a code point is a natural number.
  The vocabulary table \<open>Dict[int, str]\<close> is an association list in insertion order:
  \<open>map_of\<close> is the lookup, the first components are the keys, and an assignment
  \<open>d[k] = v\<close> is \<open>AList.update k v\<close> (in place when the key is there, at the end otherwise).
\<close>

type_synonym pystr = "nat list"

type_synonym token_map = "(int \<times> pystr) list"

definition ascii :: "string \<Rightarrow> pystr" where
  "ascii s = map of_char s"

text \<open>
  Exceptions are values. \<open>HTTPException\<close> carries \<open>status_code\<close> and \<open>detail\<close>;
  \<open>Exception\<close> stands for every other instance of Python's \<open>Exception\<close>, with its
  \<open>str(e)\<close>. A function that can raise returns \<open>exn + 'a\<close>, \<open>Inl\<close> being the raise.
\<close>

datatype exn = HTTPException int pystr | Exception pystr

text \<open>
  \<open>str.isspace\<close> of one code point, as CPython's \<open>_PyUnicode_IsWhitespace\<close> lists it.
\<close>

definition py_isspace :: "nat \<Rightarrow> bool" where
  "py_isspace c \<longleftrightarrow>
     (0x09 \<le> c \<and> c \<le> 0x0D) \<or> (0x1C \<le> c \<and> c \<le> 0x20) \<or> c = 0x85 \<or> c = 0xA0 \<or>
     c = 0x1680 \<or> (0x2000 \<le> c \<and> c \<le> 0x200A) \<or> c = 0x2028 \<or> c = 0x2029 \<or>
     c = 0x202F \<or> c = 0x205F \<or> c = 0x3000"

text \<open>\<open>s.rstrip()\<close> and \<open>s.strip()\<close> with no argument: whitespace goes from the ends.\<close>

definition py_rstrip :: "pystr \<Rightarrow> pystr" where
  "py_rstrip s = rev (dropWhile py_isspace (rev s))"

definition py_strip :: "pystr \<Rightarrow> pystr" where
  "py_strip s = rev (dropWhile py_isspace (rev (dropWhile py_isspace s)))"

text \<open>
  \<open>s.split()\<close> with no argument scans the string once: whitespace ends the word being
  read, and empty words are not reported.
\<close>

fun split_scan :: "pystr \<Rightarrow> pystr \<Rightarrow> pystr list" where
  "split_scan word [] = (if word = [] then [] else [word])"
| "split_scan word (c # cs) =
     (if py_isspace c then (if word = [] then split_scan [] cs else word # split_scan [] cs)
      else split_scan (word @ [c]) cs)"

definition py_split :: "pystr \<Rightarrow> pystr list" where
  "py_split s = split_scan [] s"

text \<open>\<open>sep.join(words)\<close>.\<close>

fun py_join :: "pystr \<Rightarrow> pystr list \<Rightarrow> pystr" where
  "py_join sep [] = []"
| "py_join sep [x] = x"
| "py_join sep (x # y # ys) = x @ sep @ py_join sep (y # ys)"

section \<open>CTC decoding: \<open>decode_tokens\<close> of app/utils.py\<close>

text \<open>
  \<open>blank_token_id = max(token_map.keys()) if token_map else 128\<close>.
  Python's \<open>max\<close> scans the keys from the first one, keeping the larger.
\<close>

definition blank_token_id :: "token_map \<Rightarrow> int" where
  "blank_token_id tm = (case map fst tm of [] \<Rightarrow> 128 | k # ks \<Rightarrow> fold max ks k)"

text \<open>
  One turn of the \<open>for token_id in token_ids\<close> loop. The loop state is the pair of
  \<open>decoded_tokens\<close> (a list of token strings, appended at the end) and \<open>prev_token\<close>
  (\<open>None\<close> or the last id that was not blank).
\<close>

fun decode_step :: "token_map \<Rightarrow> int \<Rightarrow> pystr list \<times> int option \<Rightarrow> int \<Rightarrow> pystr list \<times> int option" where
  "decode_step tm blank (decoded_tokens, prev_token) token_id =
     (if token_id = blank then (decoded_tokens, None)
      else if Some token_id = prev_token then (decoded_tokens, prev_token)
      else (case map_of tm token_id of
              Some tok \<Rightarrow> (decoded_tokens @ [tok], Some token_id)
            | None \<Rightarrow> (decoded_tokens, Some token_id)))"

text \<open>
  The whole function: the early return on an empty table, the loop, and
  \<open>''.join(decoded_tokens)\<close>. On a list of integers no statement of the body raises, so the
  \<open>except\<close> branch (which would return the empty string) is never taken.
\<close>

definition decode_tokens :: "int list \<Rightarrow> token_map \<Rightarrow> pystr" where
  "decode_tokens token_ids tm =
     (if length tm = 0 then []
      else concat (fst (foldl (decode_step tm (blank_token_id tm)) ([], None) token_ids)))"

text \<open>
  The decoder as the specification words it (section 4.3): a recursion over the frames
  that carries \<open>previous\<close>, for a given blank id and a lookup function, and returns the
  emitted tokens already concatenated.
\<close>

fun ctc_collapse :: "int \<Rightarrow> (int \<rightharpoonup> pystr) \<Rightarrow> int option \<Rightarrow> int list \<Rightarrow> pystr" where
  "ctc_collapse blank table previous [] = []"
| "ctc_collapse blank table previous (i # frames) =
     (if i = blank then ctc_collapse blank table None frames
      else if previous = Some i then ctc_collapse blank table previous frames
      else (case table i of Some tok \<Rightarrow> tok | None \<Rightarrow> []) @
           ctc_collapse blank table (Some i) frames)"

section \<open>Post-processing: \<open>ASRInference._post_process_text\<close> of app/inference.py\<close>

definition post_process_text :: "pystr \<Rightarrow> pystr" where
  "post_process_text text0 =
     (let text = py_join (ascii '' '') (py_split text0)
      in if py_strip text = [] then ascii ''[No speech detected]'' else py_strip text)"

text \<open>
  Whitespace normalisation as the specification words it (section 4.5): every run of
  whitespace becomes one space, then both ends are trimmed. \<open>in_run\<close> tells whether the
  previous character was whitespace.
\<close>

fun collapse_runs :: "bool \<Rightarrow> pystr \<Rightarrow> pystr" where
  "collapse_runs in_run [] = []"
| "collapse_runs in_run (c # cs) =
     (if py_isspace c then (if in_run then collapse_runs True cs else 0x20 # collapse_runs True cs)
      else c # collapse_runs False cs)"

definition normalize_whitespace :: "pystr \<Rightarrow> pystr" where
  "normalize_whitespace s = py_strip (collapse_runs False s)"

section \<open>Duration validation: \<open>validate_audio\<close> of app/utils.py\<close>

text \<open>
  \<open>librosa.load(path, sr=16000)\<close> is a parameter \<open>load\<close>: it raises or returns the mono
  samples resampled to 16 kHz. The samples are never inspected here, so their type is
  left open. \<open>librosa.get_duration(y=y, sr=sr)\<close> is the sample count divided by the rate.
  The quotient is a float in the source; the two comparisons give the same answer on the
  exact quotient, since rounding is monotone and the bounds \<open>5.0 = 80000/16000\<close> and
  \<open>10.0 = 160000/16000\<close> are quotients of sample counts themselves.
\<close>

definition sample_rate :: nat where
  "sample_rate = 16000"

definition get_duration :: "'s list \<Rightarrow> nat \<Rightarrow> real" where
  "get_duration y sr = real (length y) / real sr"

text \<open>The body of the \<open>try\<close>: a raise of \<open>load\<close> leaves it as \<open>Inl\<close>.\<close>

definition validate_audio_try :: "(pystr \<Rightarrow> exn + 's list) \<Rightarrow> pystr \<Rightarrow> exn + bool" where
  "validate_audio_try load path =
     (case load path of
        Inl e \<Rightarrow> Inl e
      | Inr y \<Rightarrow>
          (let duration = get_duration y sample_rate;
               is_valid = (5 \<le> duration \<and> duration \<le> 10)
           in Inr is_valid))"

text \<open>The function with its handler: \<open>except Exception: return False\<close>.\<close>

definition validate_audio :: "(pystr \<Rightarrow> exn + 's list) \<Rightarrow> pystr \<Rightarrow> exn + bool" where
  "validate_audio load path =
     (case validate_audio_try load path of Inl e \<Rightarrow> Inr False | Inr is_valid \<Rightarrow> Inr is_valid)"

section \<open>Vocabulary loading: \<open>load_token_map\<close> of app/utils.py\<close>

text \<open>
  \<open>line.split(' ', 1)\<close>: at most one split, at the first space character U+0020. The
  result has one part when the line has no space and two parts otherwise.
\<close>

definition split_first_space :: "pystr \<Rightarrow> pystr list" where
  "split_first_space line =
     (if 0x20 \<in> set line
      then [takeWhile (\<lambda>c. c \<noteq> 0x20) line, tl (dropWhile (\<lambda>c. c \<noteq> 0x20) line)]
      else [line])"

text \<open>
  One turn of \<open>async for line in f\<close>. The builtin \<open>int\<close> on a \<open>str\<close> is the parameter
  \<open>int_of\<close>: \<open>Some n\<close> when it returns \<open>n\<close>, \<open>None\<close> when it raises \<open>ValueError\<close>,
  which the inner handler catches, leaving the table as it was.
\<close>

definition load_line :: "(pystr \<Rightarrow> int option) \<Rightarrow> token_map \<Rightarrow> pystr \<Rightarrow> token_map" where
  "load_line int_of tm raw_line =
     (let line = py_strip raw_line
      in if line \<noteq> []
         then (let parts = split_first_space line
               in if length parts = 2
                  then (let token = parts ! 0; idx = parts ! 1
                        in case int_of idx of
                             Some i \<Rightarrow> AList.update i token tm
                           | None \<Rightarrow> tm)
                  else tm)
         else tm)"

text \<open>
  The file system is the parameter \<open>read_lines\<close>: \<open>None\<close> when \<open>os.path.exists\<close> is false,
  \<open>Some (Inl e)\<close> when opening or reading the file raises, \<open>Some (Inr lines)\<close> with the
  lines of the file otherwise. First the body of the outer \<open>try\<close>, then the function
  with its handler \<open>except Exception: return {}\<close>.
\<close>

definition load_token_map_try ::
  "(pystr \<Rightarrow> int option) \<Rightarrow> (pystr \<Rightarrow> (exn + pystr list) option) \<Rightarrow> pystr \<Rightarrow> exn + token_map" where
  "load_token_map_try int_of read_lines token_file =
     (case read_lines token_file of
        None \<Rightarrow> Inr []
      | Some (Inl e) \<Rightarrow> Inl e
      | Some (Inr lines) \<Rightarrow> Inr (foldl (load_line int_of) [] lines))"

definition load_token_map ::
  "(pystr \<Rightarrow> int option) \<Rightarrow> (pystr \<Rightarrow> (exn + pystr list) option) \<Rightarrow> pystr \<Rightarrow> exn + token_map" where
  "load_token_map int_of read_lines token_file =
     (case load_token_map_try int_of read_lines token_file of
        Inl e \<Rightarrow> Inr []
      | Inr tm \<Rightarrow> Inr tm)"

text \<open>
  The entry that one line contributes, if any: the line is well formed when, stripped,
  it is not empty, has a space, and \<open>int\<close> accepts what follows the first space.
\<close>

definition line_entry :: "(pystr \<Rightarrow> int option) \<Rightarrow> pystr \<Rightarrow> (int \<times> pystr) option" where
  "line_entry int_of raw_line =
     (let line = py_strip raw_line
      in if line \<noteq> [] \<and> 0x20 \<in> set line
         then (case int_of (tl (dropWhile (\<lambda>c. c \<noteq> 0x20) line)) of
                 Some i \<Rightarrow> Some (i, takeWhile (\<lambda>c. c \<noteq> 0x20) line)
               | None \<Rightarrow> None)
         else None)"

text \<open>
  \<open>int\<close> on a \<open>str\<close> of ASCII characters, for evaluating examples: whitespace around, an
  optional sign, then decimal digits, single underscores allowed between digits.
\<close>

fun ascii_digits :: "bool \<Rightarrow> int \<Rightarrow> pystr \<Rightarrow> int option" where
  "ascii_digits after_digit acc [] = (if after_digit then Some acc else None)"
| "ascii_digits after_digit acc (c # cs) =
     (if 0x30 \<le> c \<and> c \<le> 0x39 then ascii_digits True (10 * acc + int (c - 0x30)) cs
      else if c = 0x5F \<and> after_digit then ascii_digits False acc cs
      else None)"

definition ascii_int :: "pystr \<Rightarrow> int option" where
  "ascii_int s =
     (case py_strip s of
        [] \<Rightarrow> None
      | c # cs \<Rightarrow>
          if c = 0x2D then map_option uminus (ascii_digits False 0 cs)
          else if c = 0x2B then ascii_digits False 0 cs
          else ascii_digits False 0 (c # cs))"

section \<open>Transcription: app/inference.py and the \<open>/transcribe\<close> endpoint of app/main.py\<close>

text \<open>
  What lies outside the Python of the repository is a record of parameters: audio
  decoding, the numeric part of \<open>preprocess_audio\<close> (scaling, mel spectrogram, dB,
  normalisation, batch dimension: floating-point array code of \<open>librosa\<close> and \<open>numpy\<close>),
  the ONNX session, \<open>numpy\<close>'s \<open>argmax\<close> and \<open>squeeze\<close> (giving the frame ids of logits with
  more than one frame), the file system and the builtin \<open>int\<close>. Samples, feature
  tensors and logits are never inspected by the code modelled here; their types are left
  open.
\<close>

record ('s, 'f, 'l) world =
  librosa_load :: "pystr \<Rightarrow> exn + 's list"
  extract_features :: "'s list \<Rightarrow> exn + 'f"
  time_steps :: "'f \<Rightarrow> int"
  session_run :: "'f \<Rightarrow> int \<Rightarrow> exn + 'l"
  argmax_squeeze :: "'l \<Rightarrow> int list"
  read_lines :: "pystr \<Rightarrow> (exn + pystr list) option"
  int_of :: "pystr \<Rightarrow> int option"
  initialize_model :: "exn option"
  write_temp :: "nat list \<Rightarrow> exn + pystr"




text \<open>
  The \<open>ASRInference\<close> object: of its fields only \<open>token_map\<close> changes after construction
  (\<open>None\<close> until the first transcription loads it).
\<close>

record asr_inference =
  token_map :: "token_map option"






record json_response =
  transcription :: pystr
  response_filename :: "pystr option"
  model :: pystr
  status :: pystr








section \<open>Properties of the decoder\<close>

lemma blank_token_id_Max: "tm \<noteq> [] \<Longrightarrow> blank_token_id tm = Max (fst ` set tm)"
proof (cases tm)
  case Nil
  assume "tm \<noteq> []"
  with Nil show ?thesis by simp
next
  case (Cons a list)
  have "Max (set (fst a # map fst list)) = fold max (map fst list) (fst a)"
    by (rule Max.set_eq_fold)
  with Cons show ?thesis by (simp add: blank_token_id_def)
qed

lemma decode_loop:
  "concat (fst (foldl (decode_step tm blank) (acc, prev) ids)) =
   concat acc @ ctc_collapse blank (map_of tm) prev ids"
  by (induction ids arbitrary: acc prev) (auto split: option.splits)

lemma decode_loop_collapsed:
  "blank \<notin> set ids \<Longrightarrow> distinct_adj ids \<Longrightarrow> (ids \<noteq> [] \<longrightarrow> prev \<noteq> Some (hd ids)) \<Longrightarrow>
   fst (foldl (decode_step tm blank) (acc, prev) ids) = acc @ List.map_filter (map_of tm) ids"
  by (induction ids arbitrary: acc prev) (auto simp: distinct_adj_Cons split: option.splits)

text \<open>
  C1. For a non-empty table the decoder is the greedy CTC collapse of the specification:
  the frames are read in order, the blank id is the largest id of the table, a blank
  frame resets \<open>previous\<close> and emits nothing, a frame equal to \<open>previous\<close> is skipped,
  any other frame emits its token when the table has one (and sets \<open>previous\<close> either
  way), and the emitted tokens are concatenated with no separator.
\<close>

theorem decode_tokens_is_ctc_collapse:
  "tm \<noteq> [] \<Longrightarrow>
   decode_tokens token_ids tm = ctc_collapse (Max (fst ` set tm)) (map_of tm) None token_ids"
  by (simp add: decode_tokens_def decode_loop blank_token_id_Max)

theorem decode_tokens_is_ctc_collapse_witness:
  "[(5, [0x905]), (2, [0x92C]), (7::int, [])] \<noteq> [] \<and>
   decode_tokens [5, 5, 2, 9, 7, 2] [(5, [0x905]), (2, [0x92C]), (7, [])] = [0x905, 0x92C, 0x92C] \<and>
   ctc_collapse (Max (fst ` set [(5, [0x905]), (2, [0x92C]), (7::int, [])]))
     (map_of [(5, [0x905]), (2, [0x92C]), (7, [])]) None [5, 5, 2, 9, 7, 2] = [0x905, 0x92C, 0x92C]"
  using decode_tokens_is_ctc_collapse [of "[(5, [0x905]), (2, [0x92C]), (7, [])]" "[5, 5, 2, 9, 7, 2]"]
  by (simp add: decode_tokens_def blank_token_id_def)

text \<open>
  C5, as the code has it. The decoder takes no blank id: it reads it off the table as the
  largest id there. With the frames \<open>[5, 5, 2, 2, 2, 7, 7]\<close> and a table that maps 5 to
  U+0905, 2 to U+092C and has an entry for id 7 (whatever its token), the blank id is 7
  and the result is the two letters U+0905 U+092C.
\<close>

theorem decode_example_with_blank_entry:
  "decode_tokens [5, 5, 2, 2, 2, 7, 7] [(5, [0x905]), (2, [0x92C]), (7, blank_token)] =
     [0x905, 0x92C]"
  by (simp add: decode_tokens_def blank_token_id_def)

text \<open>
  C5, as stated: the table \<open>{5: U+0905, 2: U+092C}\<close> alone. Its largest id is 5, so the
  two leading frames are blanks and 7 is an unknown id: the result is the single letter
  U+092C, not the two letters.
\<close>

theorem decode_example_blank_is_max_key:
  "decode_tokens [5, 5, 2, 2, 2, 7, 7] [(5, [0x905]), (2, [0x92C])] \<noteq> [0x905, 0x92C] \<and>
   decode_tokens [5, 5, 2, 2, 2, 7, 7] [(5, [0x905]), (2, [0x92C])] = [0x92C] \<and>
   blank_token_id [(5, [0x905]), (2, [0x92C])] = 5"
  by (simp add: decode_tokens_def blank_token_id_def)

text \<open>
  C7. With an empty vocabulary table, decoding returns the empty string for every input
  sequence of frame ids.
\<close>

theorem decode_tokens_empty_table: "decode_tokens token_ids [] = []"
  by (simp add: decode_tokens_def)

text \<open>
  C9. For a non-empty table and frames with no two equal neighbours and no blank id, the
  result is the concatenation, in order, of the tokens of the frames that the table maps.
\<close>

theorem decode_tokens_collapsed_input:
  "tm \<noteq> [] \<Longrightarrow> Max (fst ` set tm) \<notin> set token_ids \<Longrightarrow> distinct_adj token_ids \<Longrightarrow>
   decode_tokens token_ids tm = concat (List.map_filter (map_of tm) token_ids)"
  by (simp add: decode_tokens_def decode_loop_collapsed blank_token_id_Max)

theorem decode_tokens_collapsed_input_witness:
  "[(5, [0x905]), (2, [0x92C]), (7::int, [])] \<noteq> [] \<and>
   Max (fst ` set [(5, [0x905]), (2, [0x92C]), (7::int, [])]) \<notin> set [5, 9, 2, 5] \<and>
   distinct_adj [5, 9, 2, 5::int] \<and>
   decode_tokens [5, 9, 2, 5] [(5, [0x905]), (2, [0x92C]), (7::int, [])] = [0x905, 0x92C, 0x905]"
  using decode_tokens_collapsed_input [of "[(5, [0x905]), (2, [0x92C]), (7, [])]" "[5, 9, 2, 5]"]
  by simp

section \<open>Properties of the post-processing\<close>

lemma space_isspace: "py_isspace 0x20"
  by (simp add: py_isspace_def)

lemma drop_collapse: "dropWhile py_isspace (collapse_runs b s) = collapse_runs True s"
  by (induction s arbitrary: b) (auto simp: space_isspace)

lemma split_scan_nonempty: "[] \<notin> set (split_scan w s)"
  by (induction s arbitrary: w) auto

lemma join_empty_iff: "[] \<notin> set ws \<Longrightarrow> py_join sep ws = [] \<longleftrightarrow> ws = []"
  by (induction sep ws rule: py_join.induct) auto

lemma dropWhile_nonspace:
  "\<forall>c \<in> set w. \<not> py_isspace c \<Longrightarrow> dropWhile py_isspace (rev w) = rev w"
  by (cases "rev w") (auto simp: rev_eq_Cons_iff)

lemma rstrip_nonspace:
  assumes "\<forall>c \<in> set w. \<not> py_isspace c"
  shows "py_rstrip (w @ ys) = (if py_rstrip ys = [] then w else w @ py_rstrip ys)"
proof (cases "\<forall>c \<in> set ys. py_isspace c")
  case True
  then show ?thesis using assms
    by (simp add: py_rstrip_def dropWhile_append dropWhile_nonspace)
next
  case False
  then show ?thesis
    by (auto simp add: py_rstrip_def dropWhile_append)
qed

lemma scan_collapse:
  "\<forall>c \<in> set w. \<not> py_isspace c \<Longrightarrow>
   py_join [0x20] (split_scan w s) =
     (if w = [] then py_rstrip (collapse_runs True s) else py_rstrip (w @ collapse_runs False s))"
proof (induction s arbitrary: w)
  case Nil
  then show ?case using rstrip_nonspace [of w "[]"] by (simp add: py_rstrip_def)
next
  case (Cons c s)
  show ?case
  proof (cases "py_isspace c")
    case True
    have ih: "py_join [0x20] (split_scan [] s) = py_rstrip (collapse_runs True s)"
      using Cons.IH [of "[]"] by simp
    show ?thesis
    proof (cases "w = []")
      case True
      with \<open>py_isspace c\<close> ih show ?thesis by simp
    next
      case False
      have r: "py_rstrip (0x20 # collapse_runs True s) =
                 (if py_rstrip (collapse_runs True s) = [] then []
                  else 0x20 # py_rstrip (collapse_runs True s))"
        by (auto simp: py_rstrip_def dropWhile_append space_isspace)
      have j: "py_join [0x20] (w # split_scan [] s) =
                 (if split_scan [] s = [] then w
                  else w @ 0x20 # py_join [0x20] (split_scan [] s))"
        by (cases "split_scan [] s") simp_all
      have e: "py_join [0x20] (split_scan [] s) = [] \<longleftrightarrow> split_scan [] s = []"
        by (rule join_empty_iff) (rule split_scan_nonempty)
      show ?thesis
        using False \<open>py_isspace c\<close> Cons.prems ih e
        by (simp add: j rstrip_nonspace r)
    qed
  next
    case False
    have "\<forall>c' \<in> set (w @ [c]). \<not> py_isspace c'" using False Cons.prems by simp
    from Cons.IH [OF this] False show ?thesis by simp
  qed
qed

lemma lstrip_rstrip:
  "s = [] \<or> \<not> py_isspace (hd s) \<Longrightarrow> dropWhile py_isspace (py_rstrip s) = py_rstrip s"
proof (induction s rule: rev_induct)
  case Nil
  then show ?case by (simp add: py_rstrip_def)
next
  case (snoc x xs)
  show ?case
  proof (cases "py_isspace x")
    case True
    with snoc.prems have "xs = [] \<or> \<not> py_isspace (hd xs)" by (cases xs) auto
    from snoc.IH [OF this] True show ?thesis by (simp add: py_rstrip_def)
  next
    case False
    with snoc.prems show ?thesis by (cases xs) (auto simp: py_rstrip_def)
  qed
qed

lemma strip_idem: "py_strip (py_strip s) = py_strip s"
proof -
  let ?a = "dropWhile py_isspace s"
  have "?a = [] \<or> \<not> py_isspace (hd ?a)" using hd_dropWhile [of py_isspace s] by blast
  then have "dropWhile py_isspace (py_rstrip ?a) = py_rstrip ?a" by (rule lstrip_rstrip)
  then show ?thesis by (simp add: py_strip_def py_rstrip_def)
qed

lemma join_split_normalizes: "py_join [0x20] (py_split s) = normalize_whitespace s"
  using scan_collapse [of "[]" s]
  by (simp add: py_split_def normalize_whitespace_def py_strip_def py_rstrip_def drop_collapse)

text \<open>
  C8. The post-processing returns the text with every run of whitespace collapsed to one
  space and both ends trimmed; when nothing is left it returns the sentinel
  \<open>[No speech detected]\<close> as its ordinary result.
\<close>

theorem post_process_text_normalizes:
  "post_process_text s =
     (if normalize_whitespace s = [] then ascii ''[No speech detected]''
      else normalize_whitespace s)"
  by (simp add: post_process_text_def ascii_def join_split_normalizes normalize_whitespace_def
      strip_idem)

section \<open>Properties of the duration validation\<close>

text \<open>
  C3. For a waveform that loads, validation accepts exactly when the duration lies in the
  closed interval from 5 to 10 seconds, that is when the waveform has from 80000 to 160000
  samples at 16 kHz: both bounds are accepted, anything shorter or longer is rejected.
\<close>

theorem validate_audio_accepts_iff:
  "load path = Inr y \<Longrightarrow>
   validate_audio load path =
     Inr (5 \<le> get_duration y sample_rate \<and> get_duration y sample_rate \<le> 10) \<and>
   ((5 \<le> get_duration y sample_rate \<and> get_duration y sample_rate \<le> 10) \<longleftrightarrow>
    (80000 \<le> length y \<and> length y \<le> 160000))"
  by (simp add: validate_audio_def validate_audio_try_def get_duration_def sample_rate_def
      Let_def field_simps)

theorem validate_audio_accepts_iff_witness:
  "validate_audio (\<lambda>p. Inr (replicate 80000 ())) [] = Inr True \<and>
   get_duration (replicate 80000 ()) sample_rate = 5 \<and>
   validate_audio (\<lambda>p. Inr (replicate 160000 ())) [] = Inr True \<and>
   get_duration (replicate 160000 ()) sample_rate = 10 \<and>
   validate_audio (\<lambda>p. Inr (replicate 79999 ())) [] = Inr False \<and>
   get_duration (replicate 79999 ()) sample_rate < 5 \<and>
   validate_audio (\<lambda>p. Inr (replicate 160001 ())) [] = Inr False \<and>
   get_duration (replicate 160001 ()) sample_rate > 10"
  using validate_audio_accepts_iff [of "\<lambda>p. Inr (replicate 80000 ())" "[]" "replicate 80000 ()"]
    validate_audio_accepts_iff [of "\<lambda>p. Inr (replicate 160000 ())" "[]" "replicate 160000 ()"]
    validate_audio_accepts_iff [of "\<lambda>p. Inr (replicate 79999 ())" "[]" "replicate 79999 ()"]
    validate_audio_accepts_iff [of "\<lambda>p. Inr (replicate 160001 ())" "[]" "replicate 160001 ()"]
  by (simp add: get_duration_def sample_rate_def)

text \<open>
  C10. Validation always returns a value and never raises: when the audio cannot be
  loaded, the handler turns the exception into \<open>False\<close>, the value an out-of-range
  duration gives too.
\<close>

theorem validate_audio_never_raises:
  "(\<exists>b. validate_audio load path = Inr b) \<and>
   (\<forall>e. load path = Inl e \<longrightarrow> validate_audio load path = Inr False)"
  by (auto simp: validate_audio_def validate_audio_try_def Let_def split: sum.splits)

theorem validate_audio_never_raises_witness:
  "(\<lambda>p. Inl (Exception (ascii ''no backend''))) (ascii ''a.wav'') =
     (Inl (Exception (ascii ''no backend'')) :: exn + unit list) \<and>
   validate_audio (\<lambda>p. Inl (Exception (ascii ''no backend'')) :: exn + unit list) (ascii ''a.wav'') =
     Inr False \<and>
   validate_audio (\<lambda>p. Inr (replicate 48000 ())) (ascii ''a.wav'') = Inr False"
  using validate_audio_never_raises
    [of "\<lambda>p. Inl (Exception (ascii ''no backend'')) :: exn + unit list" "ascii ''a.wav''"]
  by (simp add: validate_audio_def validate_audio_try_def get_duration_def sample_rate_def)

section \<open>Properties of the vocabulary loading\<close>

lemma load_line_entry:
  "load_line f tm l = (case line_entry f l of None \<Rightarrow> tm | Some (i, tok) \<Rightarrow> AList.update i tok tm)"
  by (simp add: load_line_def line_entry_def split_first_space_def Let_def split: option.splits)

lemma split_at_first:
  "x \<in> set s \<Longrightarrow> s = takeWhile (\<lambda>c. c \<noteq> x) s @ x # tl (dropWhile (\<lambda>c. c \<noteq> x) s)"
  by (induction s) auto

lemma split_at_first_unique:
  "x \<notin> set a \<Longrightarrow> takeWhile (\<lambda>c. c \<noteq> x) (a @ x # b) = a \<and> tl (dropWhile (\<lambda>c. c \<noteq> x) (a @ x # b)) = b"
  by (induction a) auto

lemma line_entry_Some_iff:
  "line_entry f l = Some (i, tok) \<longleftrightarrow>
     (\<exists>idx. py_strip l = tok @ 0x20 # idx \<and> 0x20 \<notin> set tok \<and> f idx = Some i)"
proof
  assume a: "line_entry f l = Some (i, tok)"
  let ?s = "py_strip l"
  from a have m: "0x20 \<in> set ?s" and t: "tok = takeWhile (\<lambda>c. c \<noteq> 0x20) ?s"
    and i: "f (tl (dropWhile (\<lambda>c. c \<noteq> 0x20) ?s)) = Some i"
    by (auto simp: line_entry_def Let_def split: if_splits option.splits)
  have "?s = tok @ 0x20 # tl (dropWhile (\<lambda>c. c \<noteq> 0x20) ?s)"
    unfolding t using m by (rule split_at_first)
  moreover have "0x20 \<notin> set tok" unfolding t by (auto dest: set_takeWhileD)
  ultimately show "\<exists>idx. py_strip l = tok @ 0x20 # idx \<and> 0x20 \<notin> set tok \<and> f idx = Some i"
    using i by blast
next
  assume "\<exists>idx. py_strip l = tok @ 0x20 # idx \<and> 0x20 \<notin> set tok \<and> f idx = Some i"
  then obtain idx where s: "py_strip l = tok @ 0x20 # idx" and n: "0x20 \<notin> set tok" and i: "f idx = Some i"
    by blast
  from split_at_first_unique [OF n, of idx] i show "line_entry f l = Some (i, tok)"
    by (simp add: line_entry_def s)
qed

lemma strip_no_leading_space: "py_strip l = c # cs \<Longrightarrow> \<not> py_isspace c"
proof -
  assume a: "py_strip l = c # cs"
  let ?a = "dropWhile py_isspace l"
  have "?a = [] \<or> \<not> py_isspace (hd ?a)" using hd_dropWhile [of py_isspace l] by blast
  then have "dropWhile py_isspace (py_rstrip ?a) = py_rstrip ?a" by (rule lstrip_rstrip)
  then have "dropWhile py_isspace (c # cs) = c # cs" using a by (simp add: py_strip_def py_rstrip_def)
  then show ?thesis using length_dropWhile_le [of py_isspace cs] by (auto split: if_splits)
qed

lemma line_entry_token_nonempty: "line_entry f l = Some (i, tok) \<Longrightarrow> tok \<noteq> []"
proof
  assume a: "line_entry f l = Some (i, tok)" and e: "tok = []"
  then obtain idx where "py_strip l = 0x20 # idx" by (auto simp: line_entry_Some_iff)
  then have "\<not> py_isspace 0x20" by (rule strip_no_leading_space)
  then show False by (simp add: space_isspace)
qed

lemma load_lines_general:
  "distinct (map fst tm0) \<Longrightarrow>
   distinct (map fst (foldl (load_line f) tm0 ls)) \<and>
   fst ` set (foldl (load_line f) tm0 ls) = fst ` set tm0 \<union> fst ` set (List.map_filter (line_entry f) ls) \<and>
   map_of (foldl (load_line f) tm0 ls) = map_of tm0 ++ map_of (rev (List.map_filter (line_entry f) ls))"
proof (induction ls arbitrary: tm0)
  case Nil
  then show ?case by simp
next
  case (Cons l ls)
  show ?case
  proof (cases "line_entry f l")
    case None
    then have "load_line f tm0 l = tm0" by (simp add: load_line_entry)
    with Cons None show ?thesis by simp
  next
    case (Some e)
    obtain i tok where e: "e = (i, tok)" by (cases e)
    let ?tm1 = "AList.update i tok tm0"
    let ?es = "List.map_filter (line_entry f) ls"
    have step: "load_line f tm0 l = ?tm1" using Some e by (simp add: load_line_entry)
    have d: "distinct (map fst ?tm1)"
      using Cons.prems by (simp add: distinct_update)
    note ih = Cons.IH [OF d]
    have es: "List.map_filter (line_entry f) (l # ls) = (i, tok) # ?es"
      using Some e by simp
    have m: "map_of ?tm1 ++ map_of (rev ?es) = map_of tm0 ++ map_of (rev ((i, tok) # ?es))"
      by (simp add: update_conv' map_add_upd_left flip: map_add_assoc) (simp add: map_add_def fun_eq_iff split: option.splits)
    have k: "fst ` set ?tm1 \<union> fst ` set ?es = fst ` set tm0 \<union> fst ` set ((i, tok) # ?es)"
      by (simp add: dom_update)
    show ?thesis
      unfolding es foldl_Cons step using ih m k by simp
  qed
qed

lemma load_lines_table:
  "map_of (foldl (load_line f) [] ls) = map_of (rev (List.map_filter (line_entry f) ls)) \<and>
   length (foldl (load_line f) [] ls) = card (fst ` set (List.map_filter (line_entry f) ls)) \<and>
   length (foldl (load_line f) [] ls) \<le> length (filter (\<lambda>l. line_entry f l \<noteq> None) ls)"
proof -
  let ?tm = "foldl (load_line f) [] ls"
  let ?es = "List.map_filter (line_entry f) ls"
  have g: "distinct (map fst ?tm)" "fst ` set ?tm = fst ` set ?es"
    "map_of ?tm = map_of (rev ?es)"
    using load_lines_general [of "[]" f ls] by simp_all
  have "length ?tm = length (map fst ?tm)" by simp
  also have "\<dots> = card (set (map fst ?tm))" using g(1) by (simp only: distinct_card)
  also have "\<dots> = card (fst ` set ?es)" using g(2) by simp
  finally have c: "length ?tm = card (fst ` set ?es)" .
  have "card (fst ` set ?es) \<le> card (set ?es)" by (rule card_image_le) simp
  also have "\<dots> \<le> length ?es" by (rule card_length)
  also have "\<dots> = length (filter (\<lambda>l. line_entry f l \<noteq> None) ls)"
    by (simp add: List.map_filter_def)
  finally show ?thesis using g(3) c by simp
qed

text \<open>
  C6, as the code has it. Loading never fails. Each line is stripped and then split at
  its first space character only: the token is what precedes that space (so it is not
  empty and holds no space) and \<open>int\<close> must accept all that follows it. A line that is not
  of this form is skipped. A later line replaces an earlier one with the same index, so
  the size of the table is the number of distinct indices among the well-formed lines,
  which is at most the number of well-formed lines.
\<close>

theorem load_token_map_table:
  "(\<exists>tm. load_token_map f rd token_file = Inr tm) \<and>
   (rd token_file = Some (Inr ls) \<longrightarrow>
      (\<exists>tm. load_token_map f rd token_file = Inr tm \<and>
         map_of tm = map_of (rev (List.map_filter (line_entry f) ls)) \<and>
         length tm = card (fst ` set (List.map_filter (line_entry f) ls)) \<and>
         length tm \<le> length (filter (\<lambda>l. line_entry f l \<noteq> None) ls))) \<and>
   (line_entry f l = Some (i, tok) \<longleftrightarrow>
      tok \<noteq> [] \<and> (\<exists>idx. py_strip l = tok @ 0x20 # idx \<and> 0x20 \<notin> set tok \<and> f idx = Some i))"
proof (intro conjI impI)
  show "\<exists>tm. load_token_map f rd token_file = Inr tm"
    by (simp add: load_token_map_def split: sum.splits)
next
  assume "rd token_file = Some (Inr ls)"
  then have "load_token_map f rd token_file = Inr (foldl (load_line f) [] ls)"
    by (simp add: load_token_map_def load_token_map_try_def)
  with load_lines_table [of f ls]
  show "\<exists>tm. load_token_map f rd token_file = Inr tm \<and>
         map_of tm = map_of (rev (List.map_filter (line_entry f) ls)) \<and>
         length tm = card (fst ` set (List.map_filter (line_entry f) ls)) \<and>
         length tm \<le> length (filter (\<lambda>l. line_entry f l \<noteq> None) ls)"
    by simp
next
  show "line_entry f l = Some (i, tok) \<longleftrightarrow>
      tok \<noteq> [] \<and> (\<exists>idx. py_strip l = tok @ 0x20 # idx \<and> 0x20 \<notin> set tok \<and> f idx = Some i)"
    using line_entry_token_nonempty [of f l i tok] line_entry_Some_iff [of f l i tok] by blast
qed

theorem load_token_map_table_witness:
  "(\<lambda>p. Some (Inr [ascii ''a 1'', ascii ''b 1'', ascii ''tok''])) (ascii ''model/tokens.txt'') =
     (Some (Inr [ascii ''a 1'', ascii ''b 1'', ascii ''tok'']) :: (exn + pystr list) option) \<and>
   load_token_map ascii_int (\<lambda>p. Some (Inr [ascii ''a 1'', ascii ''b 1'', ascii ''tok'']))
     (ascii ''model/tokens.txt'') = Inr [(1, ascii ''b'')] \<and>
   line_entry ascii_int (ascii ''b 1'') = Some (1, ascii ''b'') \<and>
   line_entry ascii_int (ascii ''tok'') = None"
  using load_token_map_table [of ascii_int
      "\<lambda>p. Some (Inr [ascii ''a 1'', ascii ''b 1'', ascii ''tok''])" "ascii ''model/tokens.txt''"
      "[ascii ''a 1'', ascii ''b 1'', ascii ''tok'']" "ascii ''b 1''" 1 "ascii ''b''"]
  by (simp add: load_token_map_def load_token_map_try_def load_line_def split_first_space_def
      line_entry_def py_strip_def py_isspace_def ascii_def ascii_int_def)

text \<open>
  C6, as stated. The line \<open>" 5"\<close> has the empty token and the index 5: stripping turns
  it into \<open>"5"\<close>, which has no space, and nothing is loaded. The lines \<open>"a 1"\<close> and
  \<open>"b 1"\<close> are both well formed and the table has one entry.
\<close>

theorem load_token_map_empty_token_and_duplicates:
  "load_token_map ascii_int (\<lambda>p. Some (Inr [ascii '' 5''])) (ascii ''model/tokens.txt'') = Inr [] \<and>
   ascii_int (ascii ''5'') = Some 5 \<and>
   load_token_map ascii_int (\<lambda>p. Some (Inr [ascii ''a 1'', ascii ''b 1'']))
     (ascii ''model/tokens.txt'') = Inr [(1, ascii ''b'')] \<and>
   length (filter (\<lambda>l. line_entry ascii_int l \<noteq> None) [ascii ''a 1'', ascii ''b 1'']) = 2"
  by (simp add: load_token_map_def load_token_map_try_def load_line_def split_first_space_def
      line_entry_def py_strip_def py_isspace_def ascii_def ascii_int_def)

section \<open>Properties of the transcription\<close>





end
